theory Spec2Isabelle
  imports Main "HOL-Library.Word"
begin

section \<open>Embedding of \<open>src/font_manager.cpp\<close>\<close>

text \<open>
  The model follows the C++ of \<open>FontManager\<close>. Signed 32-bit quantities
  (\<open>int32_t\<close>, \<open>FT_Int\<close>, \<open>hb_position_t\<close>) are \<open>int\<close>; their overflow is undefined in
  C++ and is not modelled. Unsigned 32-bit quantities (\<open>atlasX\<close>, \<open>atlasY\<close>,
  \<open>string_width\<close>, the image index) are \<open>int\<close> reduced \<open>mod 2 ^ 32\<close> after every
  operation, as C++ does. Pixels are \<open>8 word\<close>. Undefined behaviour (a failed
  \<open>assert\<close>, a copy or write outside an allocation, \<open>memcpy\<close> on overlapping regions)
  is a value of its own, so that no theorem is about a run the language does not define.
  The direction, script and language that \<open>GetTexture\<close> sets on the shaping buffer,
  the logging and the upload of the texture have no part in the properties and are
  left out.
\<close>

type_synonym uint8 = "8 word"

subsection \<open>Raw memory: \<open>new uint8_t[n]\<close>, \<open>memset\<close>, \<open>memcpy\<close>\<close>

text \<open>
  \<open>new uint8_t[n]\<close> returns \<open>n\<close> bytes of indeterminate content: the content is the
  parameter \<open>garbage\<close>, one arbitrary byte for every offset.
\<close>

definition new_uint8 :: "(nat \<Rightarrow> uint8) \<Rightarrow> int \<Rightarrow> uint8 list option" where
  "new_uint8 garbage n = (if 0 \<le> n then Some (map garbage [0..<nat n]) else None)"

text \<open>\<open>memset(&buf[off], 0, n)\<close>: \<open>None\<close> when the range leaves the allocation.\<close>

definition memset_zero :: "uint8 list \<Rightarrow> int \<Rightarrow> int \<Rightarrow> uint8 list option" where
  "memset_zero buf off n =
     (if 0 \<le> off \<and> 0 \<le> n \<and> off + n \<le> int (length buf)
      then Some (take (nat off) buf @ replicate (nat n) 0 @ drop (nat (off + n)) buf)
      else None)"

text \<open>
  \<open>memcpy(&dst[off], src, n)\<close> between two different allocations: \<open>None\<close> when either
  range leaves its allocation.
\<close>

definition memcpy :: "uint8 list \<Rightarrow> int \<Rightarrow> uint8 list \<Rightarrow> int \<Rightarrow> uint8 list option" where
  "memcpy dst off src n =
     (if 0 \<le> off \<and> 0 \<le> n \<and> off + n \<le> int (length dst) \<and> n \<le> int (length src)
      then Some (take (nat off) dst @ take (nat n) src @ drop (nat (off + n)) dst)
      else None)"

text \<open>
  \<open>memcpy(&buf[off], buf, n)\<close> inside one allocation. The C standard leaves the call
  undefined when the source \<open>[0, n)\<close> and the destination \<open>[off, off + n)\<close> overlap,
  that is when \<open>0 < n\<close> and \<open>off < n\<close>.
\<close>

definition memcpy_within :: "uint8 list \<Rightarrow> int \<Rightarrow> int \<Rightarrow> uint8 list option" where
  "memcpy_within buf off n =
     (if 0 \<le> off \<and> 0 \<le> n \<and> off + n \<le> int (length buf) \<and> (n = 0 \<or> n \<le> off)
      then Some (take (nat off) buf @ take (nat n) buf @ drop (nat (off + n)) buf)
      else None)"

text \<open>
  What \<open>memmove(&buf[off], buf, n)\<close> would do: the destination receives the bytes the
  source held before the call, overlapping or not. The source never calls it; it is
  here to say what a shift with memmove semantics is.
\<close>

definition memmove_within :: "uint8 list \<Rightarrow> int \<Rightarrow> int \<Rightarrow> uint8 list option" where
  "memmove_within buf off n =
     (if 0 \<le> off \<and> 0 \<le> n \<and> off + n \<le> int (length buf)
      then Some (take (nat off) buf @ take (nat n) buf @ drop (nat (off + n)) buf)
      else None)"

subsection \<open>\<open>FontMetrics\<close> and \<open>mathfu::RoundUpToPowerOf2\<close>\<close>

text \<open>
  Modelled from the spec: the class \<open>FontMetrics\<close> of \<open>font_manager.h\<close>, which is not
  among the sources: five integers, with \<open>total = internal_leading + ascender -
  descender - external_leading\<close>. The constructor takes them in the order
  \<open>base_line, internal_leading, ascender, descender, external_leading\<close>.
\<close>

record FontMetrics =
  base_line :: int
  internal_leading :: int
  ascender :: int
  descender :: int
  external_leading :: int

definition total :: "FontMetrics \<Rightarrow> int" where
  "total m = internal_leading m + ascender m - descender m - external_leading m"

text \<open>
  Modelled from the spec: \<open>mathfu::RoundUpToPowerOf2\<close>, a function of the mathfu
  library, which is not among the sources. The spec calls it \<open>round_up_pow2\<close> and
  requires its results to be powers of two not below the argument; the model is the
  least such power, found by doubling from 1.
\<close>

function pow2_from :: "nat \<Rightarrow> nat \<Rightarrow> nat" where
  "pow2_from p n = (if n \<le> p \<or> p = 0 then p else pow2_from (2 * p) n)"
  by pat_completeness auto
termination
  by (relation "measure (\<lambda>(p, n). n - p)") auto

definition RoundUpToPowerOf2 :: "int \<Rightarrow> int" where
  "RoundUpToPowerOf2 n = int (pow2_from 1 (nat n))"

subsection \<open>\<open>FontManager::ExpandBuffer\<close>\<close>

text \<open>
  The image is passed in and returned with the flag. \<open>None\<close> is undefined behaviour or
  the failed \<open>assert(internal_leading_change >= 0)\<close>. In the same-height branch the
  source copies with \<open>memcpy\<close> inside the one buffer.
\<close>

definition ExpandBuffer ::
  "(nat \<Rightarrow> uint8) \<Rightarrow> int \<Rightarrow> int \<Rightarrow> FontMetrics \<Rightarrow> FontMetrics \<Rightarrow> uint8 list
     \<Rightarrow> (bool \<times> uint8 list) option" where
  "ExpandBuffer garbage width height original_metrics new_metrics img =
     (if total original_metrics = total new_metrics then Some (False, img)
      else
        let new_height = RoundUpToPowerOf2 (total new_metrics);
            internal_leading_change =
              internal_leading new_metrics - internal_leading original_metrics
        in
          if \<not> 0 \<le> internal_leading_change then None
          else if height \<noteq> new_height then
            (case new_uint8 garbage (width * new_height) of
               None \<Rightarrow> None
             | Some fresh \<Rightarrow>
            (case memcpy fresh (width * internal_leading_change) img
                    (width * total original_metrics) of
               None \<Rightarrow> None
             | Some copied \<Rightarrow>
            (case memset_zero copied 0 (width * internal_leading_change) of
               None \<Rightarrow> None
             | Some top_cleared \<Rightarrow>
            (let clear_offset = total original_metrics + internal_leading_change in
             case memset_zero top_cleared (width * clear_offset)
                    (width * (new_height - clear_offset)) of
               None \<Rightarrow> None
             | Some bottom_cleared \<Rightarrow> Some (True, bottom_cleared)))))
          else if 0 < internal_leading_change then
            (case memcpy_within img (width * internal_leading_change)
                    (width * total original_metrics) of
               None \<Rightarrow> None
             | Some moved \<Rightarrow>
            (case memset_zero moved 0 (width * internal_leading_change) of
               None \<Rightarrow> None
             | Some top_cleared \<Rightarrow> Some (False, top_cleared)))
          else Some (False, img))"

text \<open>
  Lines 154 to 159 of \<open>GetTexture\<close>: the call of \<open>ExpandBuffer\<close> and the update of
  the tracked height. The result is the height and the image afterwards.
\<close>

definition expand_and_update ::
  "(nat \<Rightarrow> uint8) \<Rightarrow> int \<Rightarrow> int \<Rightarrow> FontMetrics \<Rightarrow> FontMetrics \<Rightarrow> uint8 list
     \<Rightarrow> (int \<times> uint8 list) option" where
  "expand_and_update garbage width height initial_metrics new_metrics img =
     (if total new_metrics \<noteq> total initial_metrics then
        (case ExpandBuffer garbage width height initial_metrics new_metrics img of
           None \<Rightarrow> None
         | Some (expanded, img') \<Rightarrow>
             Some (if expanded then RoundUpToPowerOf2 (total new_metrics) else height, img'))
      else Some (height, img))"

subsection \<open>The engines and the manager\<close>

text \<open>
  FreeType and HarfBuzz are outside the repository. What \<open>GetTexture\<close> reads of a
  face is its header (\<open>ascender\<close>, \<open>units_per_EM\<close>), and what \<open>FT_Set_Pixel_Sizes\<close>
  writes is the pixel size. A rendered glyph slot carries the bitmap and its offsets;
  \<open>bitmap.rows\<close> and \<open>bitmap.width\<close> are signed, as the source's \<open>int32_t\<close> loop
  counters and its comparison with \<open>descender()\<close> take them. The shaper's two arrays
  (\<open>hb_glyph_info_t\<close>, \<open>hb_glyph_position_t\<close>) have one length and are one list.
\<close>

record FT_Face =
  face_ascender :: int
  units_per_EM :: int
  pixel_size :: int

record FT_GlyphSlot =
  bitmap_rows :: int
  bitmap_width :: int
  bitmap_buffer :: "uint8 list"
  bitmap_left :: int
  bitmap_top :: int

record hb_glyph =
  codepoint :: nat
  x_advance :: int
  y_advance :: int

text \<open>
  The external calls, as functions. Modelled from the spec: \<open>LoadFile\<close> of
  \<open>utilities.h\<close>, which is not among the sources (\<open>load_file(name) \<rightarrow> bytes | fail\<close>).
  \<open>hb_shape\<close> sees the face with its current pixel size and the whole content of the
  shaping buffer. \<open>FT_Load_Glyph\<close> with \<open>FT_LOAD_RENDER\<close> gives the rendered slot or
  fails. \<open>garbage\<close> is the content of freshly allocated memory.
\<close>

record engines =
  LoadFile :: "string \<Rightarrow> uint8 list option"
  FT_New_Memory_Face :: "uint8 list \<Rightarrow> FT_Face option"
  hb_ft_font_create :: "FT_Face \<Rightarrow> bool"
  hb_shape :: "FT_Face \<Rightarrow> string \<Rightarrow> hb_glyph list"
  FT_Load_Glyph :: "FT_Face \<Rightarrow> nat \<Rightarrow> FT_GlyphSlot option"
  garbage :: "nat \<Rightarrow> uint8"

text \<open>
  A texture as \<open>GetTexture\<close> fills it: the uploaded plane and its size
  (\<open>LoadFromMemory\<close>), the two quotients of \<open>set_uv\<close> as numerator and denominator
  (\<open>string_width / width\<close>, \<open>total / height\<close>), and the metrics.
\<close>

record FontTexture =
  tex_image :: "uint8 list"
  tex_size :: "int \<times> int"
  uv_right :: "int \<times> int"
  uv_bottom :: "int \<times> int"
  metrics :: FontMetrics

text \<open>
  The manager. A texture pointer is an index into \<open>textures\<close>, the objects made by
  \<open>new FontTexture\<close>; \<open>map_textures\<close> maps a string to such a pointer. \<open>the_face\<close> is
  the live face, if any; \<open>harfbuzz_font\<close> says whether a shaping font is live.
  \<open>harfbuzz_buf\<close> is the content of the shared shaping buffer: what was added and not
  yet cleared. The members are named as in the source without the final underscore;
  \<open>the_face\<close> is the member \<open>face\<close> with its underscore.
\<close>

record FontManager =
  font_data :: "uint8 list"
  the_face :: "FT_Face option"
  harfbuzz_font :: bool
  face_initialized :: bool
  map_textures :: "string \<Rightarrow> nat option"
  textures :: "FontTexture list"
  harfbuzz_buf :: string

datatype failure = GlyphLoadFailure | AtlasOverflow

subsection \<open>Arithmetic of the C++ types\<close>

definition u32 :: "int \<Rightarrow> int" where
  "u32 x = x mod 2 ^ 32"

text \<open>The quotient of two \<open>int32_t\<close>, rounded towards zero as C++ rounds it.\<close>

definition c_div :: "int \<Rightarrow> int \<Rightarrow> int" where
  "c_div a b =
     (if (a < 0) = (b < 0) then \<bar>a\<bar> div \<bar>b\<bar> else - (\<bar>a\<bar> div \<bar>b\<bar>))"

definition kFreeTypeUnit :: int where
  "kFreeTypeUnit = 64"

definition kGlyphPadding :: int where
  "kGlyphPadding = 0"

subsection \<open>\<open>FontManager::GetTexture\<close>: the loop over the glyphs\<close>

text \<open>Lines 140 and 141: does the glyph leave the band of the tracked metrics?\<close>

definition exceeds_metrics :: "FontMetrics \<Rightarrow> FT_GlyphSlot \<Rightarrow> bool" where
  "exceeds_metrics initial_metrics g =
     (bitmap_top g > ascender initial_metrics \<or>
      bitmap_top g - bitmap_rows g < descender initial_metrics)"

text \<open>Lines 142 to 152: the refined copy of the metrics.\<close>

definition refine_metrics :: "FontMetrics \<Rightarrow> FT_GlyphSlot \<Rightarrow> FontMetrics" where
  "refine_metrics initial_metrics g =
     (let new_metrics = initial_metrics;
          new_metrics = new_metrics\<lparr>internal_leading :=
            max (internal_leading initial_metrics)
                (bitmap_top g - ascender initial_metrics)\<rparr>;
          new_metrics = new_metrics\<lparr>external_leading :=
            min (external_leading initial_metrics)
                (bitmap_top g - bitmap_rows g - descender initial_metrics)\<rparr>
      in new_metrics\<lparr>base_line := internal_leading new_metrics + ascender new_metrics\<rparr>)"

text \<open>
  The locals of \<open>GetTexture\<close> that the loop changes. \<open>width\<close> and \<open>ysize\<close> stay as they
  are and are arguments.
\<close>

record atlas =
  height :: int
  initial_metrics :: FontMetrics
  image_buf :: "uint8 list"
  atlasX :: int
  atlasY :: int

text \<open>
  Line 181: the index written, computed in \<open>uint32_t\<close> since \<open>atlasY\<close> and \<open>atlasX\<close>
  are unsigned.
\<close>

definition blit_index :: "int \<Rightarrow> int \<Rightarrow> int \<Rightarrow> int \<Rightarrow> int \<Rightarrow> int \<Rightarrow> int \<Rightarrow> int" where
  "blit_index width ax ay y_offset left y x =
     u32 ((ay + y + y_offset) * width + ax + x + left)"

text \<open>
  Lines 179 to 183, one source pixel \<open>(y, x)\<close>. A read outside the glyph's buffer or a
  write outside the image is undefined.
\<close>

definition blit_pixel ::
  "int \<Rightarrow> atlas \<Rightarrow> FT_GlyphSlot \<Rightarrow> uint8 list \<Rightarrow> int \<times> int \<Rightarrow> uint8 list option" where
  "blit_pixel width a g img p =
     (case p of (y, x) \<Rightarrow>
        let y_offset = base_line (initial_metrics a) - bitmap_top g in
        if y_offset + y \<ge> 0 then
          let dst = blit_index width (atlasX a) (atlasY a) y_offset (bitmap_left g) y x;
              src = y * bitmap_width g + x
          in if dst < int (length img) \<and> 0 \<le> src \<and> src < int (length (bitmap_buffer g))
             then Some (img[nat dst := bitmap_buffer g ! nat src])
             else None
        else Some img)"

fun blit_pixels ::
  "int \<Rightarrow> atlas \<Rightarrow> FT_GlyphSlot \<Rightarrow> uint8 list \<Rightarrow> (int \<times> int) list \<Rightarrow> uint8 list option" where
  "blit_pixels width a g img [] = Some img"
| "blit_pixels width a g img (p # ps) =
     (case blit_pixel width a g img p of
        None \<Rightarrow> None
      | Some img' \<Rightarrow> blit_pixels width a g img' ps)"

text \<open>Lines 177 and 178: the source pixels in the order of the two loops, \<open>y\<close> outside.\<close>

definition glyph_pixels :: "FT_GlyphSlot \<Rightarrow> (int \<times> int) list" where
  "glyph_pixels g =
     List.product (map int [0..<nat (bitmap_rows g)]) (map int [0..<nat (bitmap_width g)])"

text \<open>Lines 140 to 161: refinement of the metrics with the growth of the buffer.\<close>

definition refine_and_expand ::
  "(nat \<Rightarrow> uint8) \<Rightarrow> int \<Rightarrow> atlas \<Rightarrow> FT_GlyphSlot \<Rightarrow> atlas option" where
  "refine_and_expand fresh width a g =
     (if exceeds_metrics (initial_metrics a) g then
        let new_metrics = refine_metrics (initial_metrics a) g in
        case expand_and_update fresh width (height a) (initial_metrics a) new_metrics
               (image_buf a) of
          None \<Rightarrow> None
        | Some (h, img) \<Rightarrow>
            Some (a\<lparr>height := h, image_buf := img, initial_metrics := new_metrics\<rparr>)
      else Some a)"

text \<open>Lines 163 to 166: the line wrap, compared in \<open>uint32_t\<close>.\<close>

definition line_wrap :: "int \<Rightarrow> int \<Rightarrow> atlas \<Rightarrow> FT_GlyphSlot \<Rightarrow> atlas" where
  "line_wrap width ysize a g =
     (if u32 (atlasX a + bitmap_width g + bitmap_left g) \<ge> u32 (width - kGlyphPadding)
      then a\<lparr>atlasY := u32 (atlasY a + (ysize + kGlyphPadding)), atlasX := kGlyphPadding\<rparr>
      else a)"

text \<open>Lines 168 and 169: the test that the glyph does not fit, in \<open>uint32_t\<close>.\<close>

definition exceeds_texture :: "atlas \<Rightarrow> FT_GlyphSlot \<Rightarrow> bool" where
  "exceeds_texture a g =
     (u32 (atlasY a + base_line (initial_metrics a) + bitmap_rows g - bitmap_top g)
        \<ge> u32 (height a - kGlyphPadding))"

text \<open>
  One round of the loop, lines 126 to 189. \<open>None\<close> is undefined behaviour, \<open>Inl\<close> one of
  the two \<open>return nullptr\<close>.
\<close>

definition GetTexture_glyph ::
  "engines \<Rightarrow> FT_Face \<Rightarrow> int \<Rightarrow> int \<Rightarrow> atlas \<Rightarrow> hb_glyph \<Rightarrow> (failure + atlas) option" where
  "GetTexture_glyph eng face width ysize a gi =
     (case FT_Load_Glyph eng face (codepoint gi) of
        None \<Rightarrow> Some (Inl GlyphLoadFailure)
      | Some g \<Rightarrow>
     (case refine_and_expand (garbage eng) width a g of
        None \<Rightarrow> None
      | Some a1 \<Rightarrow>
     (let a2 = line_wrap width ysize a1 g in
      if exceeds_texture a2 g then Some (Inl AtlasOverflow)
      else
        case blit_pixels width a2 g (image_buf a2) (glyph_pixels g) of
          None \<Rightarrow> None
        | Some img \<Rightarrow>
            Some (Inr (a2\<lparr>image_buf := img,
              atlasX := u32 (atlasX a2 + (c_div (x_advance gi) kFreeTypeUnit + kGlyphPadding)),
              atlasY := u32 (atlasY a2 - (c_div (y_advance gi) kFreeTypeUnit + kGlyphPadding))\<rparr>)))))"

fun GetTexture_loop ::
  "engines \<Rightarrow> FT_Face \<Rightarrow> int \<Rightarrow> int \<Rightarrow> atlas \<Rightarrow> hb_glyph list \<Rightarrow> (failure + atlas) option" where
  "GetTexture_loop eng face width ysize a [] = Some (Inr a)"
| "GetTexture_loop eng face width ysize a (gi # gis) =
     (case GetTexture_glyph eng face width ysize a gi of
        None \<Rightarrow> None
      | Some (Inl f) \<Rightarrow> Some (Inl f)
      | Some (Inr a') \<Rightarrow> GetTexture_loop eng face width ysize a' gis)"

subsection \<open>\<open>FontManager::GetTexture\<close>\<close>

text \<open>Lines 100 to 104: the sum of the advances in \<open>uint32_t\<close>, then the division.\<close>

definition string_width_of :: "hb_glyph list \<Rightarrow> int" where
  "string_width_of glyph_pos =
     foldl (\<lambda>w gi. u32 (w + x_advance gi)) 0 glyph_pos div kFreeTypeUnit"

text \<open>Line 89: \<open>hb_buffer_add_utf8\<close> appends the bytes of the text to the buffer.\<close>

definition hb_buffer_add_utf8 :: "string \<Rightarrow> string \<Rightarrow> string" where
  "hb_buffer_add_utf8 buf text = buf @ text"

text \<open>Line 207: \<open>hb_buffer_clear_contents\<close>.\<close>

definition hb_buffer_clear_contents :: "string \<Rightarrow> string" where
  "hb_buffer_clear_contents buf = []"

text \<open>
  The pixel size is a \<open>float\<close> in the source; the model takes the integral sizes, on
  which the float arithmetic of lines 109, 112, 113 and 164 is exact integer
  arithmetic with truncation at the conversion to \<open>int32_t\<close>. The result is \<open>None\<close>
  for undefined behaviour (no face, a division by \<open>units_per_EM = 0\<close>, and what the
  loop reports), and else the returned pointer, or the reason of \<open>return nullptr\<close>,
  with the manager afterwards.
\<close>

definition GetTexture ::
  "engines \<Rightarrow> FontManager \<Rightarrow> string \<Rightarrow> int \<Rightarrow> ((failure + nat) \<times> FontManager) option" where
  "GetTexture eng fm text ysize =
     (case map_textures fm text of
        Some t \<Rightarrow> Some (Inr t, fm)
      | None \<Rightarrow>
     (case the_face fm of
        None \<Rightarrow> None
      | Some face0 \<Rightarrow>
     (let face = face0\<lparr>pixel_size := ysize\<rparr>;
          buf = hb_buffer_add_utf8 (harfbuzz_buf fm) text;
          glyphs = hb_shape eng face buf;
          string_width = string_width_of glyphs;
          width = RoundUpToPowerOf2 string_width;
          height0 = RoundUpToPowerOf2 ysize
      in
        if units_per_EM face = 0 then None
        else
          let b = c_div (ysize * face_ascender face) (units_per_EM face);
              metrics0 = \<lparr>base_line = b, internal_leading = 0, ascender = b,
                          descender = b - ysize, external_leading = 0\<rparr>
          in
     (case new_uint8 (garbage eng) (width * height0) of
        None \<Rightarrow> None
      | Some fresh \<Rightarrow>
     (case memset_zero fresh 0 (width * height0) of
        None \<Rightarrow> None
      | Some img0 \<Rightarrow>
     (case GetTexture_loop eng face width ysize
             \<lparr>height = height0, initial_metrics = metrics0, image_buf = img0,
              atlasX = kGlyphPadding, atlasY = kGlyphPadding\<rparr> glyphs of
        None \<Rightarrow> None
      | Some (Inl f) \<Rightarrow>
          Some (Inl f, fm\<lparr>the_face := Some face, harfbuzz_buf := buf\<rparr>)
      | Some (Inr a) \<Rightarrow>
          let tex = \<lparr>tex_image = image_buf a, tex_size = (width, height a),
                     uv_right = (string_width, width),
                     uv_bottom = (total (initial_metrics a), height a),
                     metrics = initial_metrics a\<rparr>;
              t = length (textures fm)
          in Some (Inr t,
                   fm\<lparr>the_face := Some face,
                      harfbuzz_buf := hb_buffer_clear_contents buf,
                      textures := textures fm @ [tex],
                      map_textures := (map_textures fm)(text \<mapsto> t)\<rparr>)))))))"

subsection \<open>\<open>FontManager::Open\<close>\<close>

text \<open>
  \<open>None\<close> is the failed \<open>assert(!face_initialized)\<close>. Each of the three failures
  returns \<open>false\<close>; only the third one clears \<open>font_data\<close> and destroys the face
  (lines 292 and 293).
\<close>

definition Open :: "engines \<Rightarrow> FontManager \<Rightarrow> string \<Rightarrow> (bool \<times> FontManager) option" where
  "Open eng fm font_name =
     (if face_initialized fm then None
      else
        case LoadFile eng font_name of
          None \<Rightarrow> Some (False, fm)
        | Some bytes \<Rightarrow>
            let fm1 = fm\<lparr>font_data := bytes\<rparr> in
            (case FT_New_Memory_Face eng (font_data fm1) of
               None \<Rightarrow> Some (False, fm1)
             | Some face \<Rightarrow>
                 let fm2 = fm1\<lparr>the_face := Some face\<rparr> in
                 if \<not> hb_ft_font_create eng face
                 then Some (False, fm2\<lparr>font_data := [], the_face := None\<rparr>)
                 else Some (True, fm2\<lparr>harfbuzz_font := True, face_initialized := True\<rparr>)))"

text \<open>The manager after the constructor: nothing open, nothing cached, an empty buffer.\<close>

definition new_FontManager :: FontManager where
  "new_FontManager =
     \<lparr>font_data = [], the_face = None, harfbuzz_font = False, face_initialized = False,
      map_textures = (\<lambda>_. None), textures = [], harfbuzz_buf = []\<rparr>"

subsection \<open>A test face\<close>

text \<open>
  A small deterministic font for the concrete runs: \<open>units_per_EM = 4\<close>,
  \<open>ascender = 3\<close>, so that at pixel size 4 the metrics start as \<open>(3, 0, 3, -1, 0)\<close>
  and the height as 4. The shaper gives one glyph for every byte of the buffer, three
  pixels wide. Glyph 65 (\<open>A\<close>) is a 2 by 2 bitmap inside the band; glyph 106 (\<open>j\<close>)
  starts on the top row, one pixel left of the pen; glyph 103 (\<open>g\<close>) goes two rows below
  the descender; the face has no other glyph.
\<close>

definition test_face :: FT_Face where
  "test_face = \<lparr>face_ascender = 3, units_per_EM = 4, pixel_size = 0\<rparr>"

definition glyph_A :: FT_GlyphSlot where
  "glyph_A = \<lparr>bitmap_rows = 2, bitmap_width = 2, bitmap_buffer = [1, 2, 3, 4],
               bitmap_left = 0, bitmap_top = 2\<rparr>"

definition glyph_j :: FT_GlyphSlot where
  "glyph_j = \<lparr>bitmap_rows = 3, bitmap_width = 2, bitmap_buffer = [5, 6, 7, 8, 9, 10],
               bitmap_left = - 1, bitmap_top = 3\<rparr>"

definition glyph_g :: FT_GlyphSlot where
  "glyph_g = \<lparr>bitmap_rows = 4, bitmap_width = 2, bitmap_buffer = [1, 1, 1, 1, 1, 1, 1, 1],
               bitmap_left = 0, bitmap_top = 1\<rparr>"

definition test_glyph :: "nat \<Rightarrow> FT_GlyphSlot option" where
  "test_glyph c =
     (if c = 65 then Some glyph_A
      else if c = 106 then Some glyph_j
      else if c = 103 then Some glyph_g
      else None)"

definition shaped :: "nat \<Rightarrow> hb_glyph" where
  "shaped c = \<lparr>codepoint = c, x_advance = 192, y_advance = 0\<rparr>"

definition test_engines :: engines where
  "test_engines =
     \<lparr>LoadFile = (\<lambda>name. if name = ''font.ttf'' then Some [0, 1, 0, 0] else None),
      FT_New_Memory_Face = (\<lambda>bytes. if bytes = [0, 1, 0, 0] then Some test_face else None),
      hb_ft_font_create = (\<lambda>face. True),
      hb_shape = (\<lambda>face buf. map (\<lambda>c. shaped (of_char c)) buf),
      FT_Load_Glyph = (\<lambda>face c. test_glyph c),
      garbage = (\<lambda>i. 170)\<rparr>"

text \<open>The same engines with a font file that FreeType cannot parse.\<close>

definition broken_font_engines :: engines where
  "broken_font_engines = test_engines\<lparr>FT_New_Memory_Face := (\<lambda>bytes. None)\<rparr>"

text \<open>The manager with the test face open.\<close>

definition test_manager :: FontManager where
  "test_manager =
     new_FontManager\<lparr>font_data := [0, 1, 0, 0], the_face := Some test_face,
       harfbuzz_font := True, face_initialized := True\<rparr>"

text \<open>
  Metrics for the concrete runs of \<open>ExpandBuffer\<close>: the initial metrics of the test
  face at pixel size 4, and the same with one more row of internal leading.
\<close>

definition test_metrics :: FontMetrics where
  "test_metrics = \<lparr>base_line = 3, internal_leading = 0, ascender = 3, descender = - 1,
                     external_leading = 0\<rparr>"

definition taller_metrics :: FontMetrics where
  "taller_metrics = test_metrics\<lparr>internal_leading := 1, base_line := 4\<rparr>"

text \<open>
  The locals of \<open>GetTexture\<close> on the test face at pixel size 4 when the loop starts,
  for a texture of the given width.
\<close>

definition test_atlas :: "int \<Rightarrow> atlas" where
  "test_atlas width =
     \<lparr>height = 4, initial_metrics = test_metrics,
      image_buf = replicate (nat (width * 4)) 0, atlasX = 0, atlasY = 0\<rparr>"

text \<open>The locals after the round for the glyph \<open>g\<close>, which grows the plane to height 8.\<close>

definition atlas_after_g :: atlas where
  "atlas_after_g =
     \<lparr>height = 8, initial_metrics = test_metrics\<lparr>external_leading := - 2\<rparr>,
      image_buf = [0, 0, 0, 0, 0, 0, 0, 0, 1, 1, 0, 0, 1, 1, 0, 0,
                   1, 1, 0, 0, 1, 1, 0, 0, 0, 0, 0, 0, 0, 0, 0, 0],
      atlasX = 3, atlasY = 0\<rparr>"

text \<open>The texture of the string \<open>A\<close> at pixel size 4, and the manager that holds it.\<close>

definition texture_A :: FontTexture where
  "texture_A =
     \<lparr>tex_image = [0, 0, 0, 0, 1, 2, 0, 0, 3, 4, 0, 0, 0, 0, 0, 0],
      tex_size = (4, 4), uv_right = (3, 4), uv_bottom = (4, 4), metrics = test_metrics\<rparr>"

definition manager_with_A :: FontManager where
  "manager_with_A =
     test_manager\<lparr>the_face := Some (test_face\<lparr>pixel_size := 4\<rparr>),
       textures := [texture_A], map_textures := (\<lambda>_. None)(''A'' \<mapsto> 0)\<rparr>"

text \<open>
  The manager after \<open>GetTexture\<close> has failed on the string \<open>?\<close>, for which the test
  face has no glyph.
\<close>

definition failed_manager :: FontManager where
  "failed_manager =
     test_manager\<lparr>the_face := Some (test_face\<lparr>pixel_size := 4\<rparr>), harfbuzz_buf := ''?''\<rparr>"

subsection \<open>Predicates of the properties\<close>

text \<open>
  Dimension parity of a texture: both sides are powers of two, the string's width is
  within the width and the metrics' total within the height.
\<close>

definition dimension_parity :: "FontTexture \<Rightarrow> bool" where
  "dimension_parity tex =
     ((\<exists>k. fst (tex_size tex) = 2 ^ k) \<and> (\<exists>k. snd (tex_size tex) = 2 ^ k)
      \<and> fst (uv_right tex) \<le> fst (tex_size tex)
      \<and> total (metrics tex) \<le> snd (tex_size tex))"

text \<open>Every cached pointer is a texture of the manager, with dimension parity.\<close>

definition cache_ok :: "FontManager \<Rightarrow> bool" where
  "cache_ok fm =
     (\<forall>s t. map_textures fm s = Some t \<longrightarrow>
        t < length (textures fm) \<and> dimension_parity (textures fm ! t))"

section \<open>Properties\<close>

subsection \<open>Rounding up to a power of two\<close>

lemma pow2_from_ge: "0 < p \<Longrightarrow> n \<le> pow2_from p n"
  by (induction p n rule: pow2_from.induct) (simp split: if_splits)

lemma pow2_from_pow: "\<exists>k. pow2_from p n = p * 2 ^ k"
proof (induction p n rule: pow2_from.induct)
  case (1 p n)
  show ?case
  proof (cases "n \<le> p \<or> p = 0")
    case True
    then have "pow2_from p n = p * 2 ^ 0" by simp
    then show ?thesis by blast
  next
    case False
    with 1 obtain k where "pow2_from (2 * p) n = 2 * p * 2 ^ k" by blast
    with False have "pow2_from p n = p * 2 ^ Suc k" by simp
    then show ?thesis by blast
  qed
qed

lemma RoundUpToPowerOf2_ge: "n \<le> RoundUpToPowerOf2 n"
  using pow2_from_ge [of 1 "nat n"] by (simp add: RoundUpToPowerOf2_def)

lemma RoundUpToPowerOf2_pow: "\<exists>k. RoundUpToPowerOf2 n = 2 ^ k"
proof -
  obtain k where "pow2_from 1 (nat n) = 1 * 2 ^ k" using pow2_from_pow by blast
  then have "RoundUpToPowerOf2 n = 2 ^ k" by (simp add: RoundUpToPowerOf2_def)
  then show ?thesis by blast
qed

lemma RoundUpToPowerOf2_pos: "0 < RoundUpToPowerOf2 n"
  using RoundUpToPowerOf2_pow [of n] by auto

lemma RoundUpToPowerOf2_5: "RoundUpToPowerOf2 5 = 8"
  by code_simp

subsection \<open>Memory primitives on offsets that are natural numbers\<close>

lemma memcpy_nat:
  "b \<le> length src \<Longrightarrow> a + b \<le> length dst \<Longrightarrow>
   memcpy dst (int a) src (int b) = Some (take a dst @ take b src @ drop (a + b) dst)"
  by (simp add: memcpy_def nat_add_distrib)

lemma memset_zero_nat:
  "a + n \<le> length buf \<Longrightarrow>
   memset_zero buf (int a) (int n) = Some (take a buf @ replicate n 0 @ drop (a + n) buf)"
  by (simp add: memset_zero_def nat_add_distrib)

lemma new_uint8_nat: "new_uint8 g (int n) = Some (map g [0..<n])"
  by (simp add: new_uint8_def)

lemma realloc_lists:
  fixes fresh img :: "uint8 list"
  assumes "length fresh = a + b + c" "b \<le> length img"
  shows "(case memcpy fresh (int a) img (int b) of None \<Rightarrow> None | Some copied \<Rightarrow>
          (case memset_zero copied 0 (int a) of None \<Rightarrow> None | Some top_cleared \<Rightarrow>
           (case memset_zero top_cleared (int (a + b)) (int c) of None \<Rightarrow> None
            | Some bottom_cleared \<Rightarrow> Some (True, bottom_cleared))))
         = Some (True, replicate a 0 @ take b img @ replicate c 0)"
proof -
  have 1: "memcpy fresh (int a) img (int b) = Some (take a fresh @ take b img @ drop (a + b) fresh)"
    using assms by (simp add: memcpy_nat)
  let ?copied = "take a fresh @ take b img @ drop (a + b) fresh"
  have len: "length ?copied = a + b + c" using assms by simp
  have 2: "memset_zero ?copied 0 (int a) = Some (replicate a 0 @ take b img @ drop (a + b) fresh)"
    using memset_zero_nat [of 0 a ?copied] len assms by simp
  let ?top = "replicate a 0 @ take b img @ drop (a + b) fresh"
  have 3: "memset_zero ?top (int (a + b)) (int c) = Some (replicate a 0 @ take b img @ replicate c 0)"
    using memset_zero_nat [of "a + b" c ?top] assms by simp
  show ?thesis by (simp only: 1 2 3 option.case)
qed

subsection \<open>\<open>ExpandBuffer\<close>: the reallocation branch\<close>

lemma row_col_bounds:
  fixes x y w lo hi :: int
  assumes "0 \<le> x" "x < w" "lo \<le> y" "y < hi"
  shows "lo * w \<le> y * w + x" and "y * w + x < hi * w"
proof -
  have w: "0 \<le> w" using assms by simp
  have "lo * w \<le> y * w" using assms(3) w by (rule mult_right_mono)
  with assms(1) show "lo * w \<le> y * w + x" by linarith
  have "y + 1 \<le> hi" using assms(4) by simp
  then have "(y + 1) * w \<le> hi * w" using w by (rule mult_right_mono)
  then have "y * w + w \<le> hi * w" by (simp add: algebra_simps)
  with assms(2) show "y * w + x < hi * w" by linarith
qed

lemma ExpandBuffer_realloc_eq:
  assumes neq: "total original_metrics \<noteq> total new_metrics"
    and realloc: "RoundUpToPowerOf2 (total new_metrics) \<noteq> cur_height"
    and w: "0 \<le> width"
    and il: "internal_leading original_metrics \<le> internal_leading new_metrics"
    and fits: "total original_metrics
                 + (internal_leading new_metrics - internal_leading original_metrics)
               \<le> RoundUpToPowerOf2 (total new_metrics)"
    and T: "0 \<le> total original_metrics"
    and src: "width * total original_metrics \<le> int (length img)"
  shows "ExpandBuffer fill width cur_height original_metrics new_metrics img =
         Some (True,
           replicate (nat (width * (internal_leading new_metrics
                                      - internal_leading original_metrics))) 0
           @ take (nat (width * total original_metrics)) img
           @ replicate (nat (width * (RoundUpToPowerOf2 (total new_metrics)
                 - (total original_metrics
                    + (internal_leading new_metrics - internal_leading original_metrics))))) 0)"
proof -
  define d where "d = internal_leading new_metrics - internal_leading original_metrics"
  define H where "H = RoundUpToPowerOf2 (total new_metrics)"
  define t where "t = total original_metrics"
  define a where "a = nat (width * d)"
  define b where "b = nat (width * t)"
  define c where "c = nat (width * (H - (t + d)))"
  have d0: "0 \<le> d" using il by (simp add: d_def)
  have ea: "width * d = int a" using w d0 by (simp add: a_def)
  have eb: "width * t = int b" using w T by (simp add: b_def t_def)
  have ec: "width * (H - (t + d)) = int c"
    using w fits by (simp add: c_def t_def d_def H_def)
  have eab: "width * (t + d) = int (a + b)"
    using ea eb by (simp add: algebra_simps)
  have eH: "width * H = int (a + b + c)"
  proof -
    have "width * H = width * (t + d) + width * (H - (t + d))" by (simp add: algebra_simps)
    then show ?thesis using eab ec by simp
  qed
  have bl: "b \<le> length img" using src eb by (simp add: t_def)
  have len: "length (map fill [0..<a + b + c]) = a + b + c" by simp
  have "ExpandBuffer fill width cur_height original_metrics new_metrics img =
        (case new_uint8 fill (width * H) of None \<Rightarrow> None | Some fresh \<Rightarrow>
         (case memcpy fresh (width * d) img (width * t) of None \<Rightarrow> None | Some copied \<Rightarrow>
          (case memset_zero copied 0 (width * d) of None \<Rightarrow> None | Some top_cleared \<Rightarrow>
           (case memset_zero top_cleared (width * (t + d)) (width * (H - (t + d))) of
              None \<Rightarrow> None
            | Some bottom_cleared \<Rightarrow> Some (True, bottom_cleared)))))"
    unfolding ExpandBuffer_def Let_def d_def H_def t_def using neq realloc il by simp
  also have "\<dots> = Some (True, replicate a 0 @ take b img @ replicate c 0)"
    unfolding ea eb ec eab eH new_uint8_nat option.case
    by (rule realloc_lists [OF len bl])
  finally show ?thesis by (simp add: a_def b_def c_def d_def H_def t_def)
qed

lemma plane_nth:
  fixes img :: "uint8 list"
  assumes "b \<le> length img"
  shows "i < a \<Longrightarrow> (replicate a 0 @ take b img @ replicate c 0) ! i = 0"
    and "j < b \<Longrightarrow> (replicate a 0 @ take b img @ replicate c 0) ! (a + j) = img ! j"
    and "a + b \<le> i \<Longrightarrow> i < a + b + c \<Longrightarrow>
         (replicate a 0 @ take b img @ replicate c 0) ! i = 0"
  using assms by (auto simp: nth_append)

text \<open>
  Claim C1. In the reallocation branch (the totals differ and the rounded new total is
  not the current height) \<open>ExpandBuffer\<close> returns \<open>true\<close> with a plane of
  \<open>width\<close> by \<open>RoundUpToPowerOf2 (total new_metrics)\<close> bytes in which row \<open>y + d\<close>
  holds the old row \<open>y\<close> for every \<open>y\<close> below the old total, \<open>d\<close> being the growth of
  the internal leading, and in which the rows above \<open>d\<close> and the rows from
  \<open>d + total original_metrics\<close> on are zero; the caller's height becomes the rounded
  new total. The content of the fresh allocation, \<open>fill\<close>, does not show in the
  result. The hypotheses are what \<open>GetTexture\<close> provides at the call: only the two
  leadings differ between the metrics, the internal one grows and the external one
  shrinks, and the old plane has \<open>width\<close> by \<open>cur_height\<close> bytes with the old total
  within the height.
\<close>

theorem ExpandBuffer_reallocates:
  assumes neq: "total original_metrics \<noteq> total new_metrics"
    and realloc: "RoundUpToPowerOf2 (total new_metrics) \<noteq> cur_height"
    and w: "0 \<le> width"
    and il: "internal_leading original_metrics \<le> internal_leading new_metrics"
    and el: "external_leading new_metrics \<le> external_leading original_metrics"
    and asc: "ascender new_metrics = ascender original_metrics"
    and desc: "descender new_metrics = descender original_metrics"
    and T: "0 \<le> total original_metrics"
    and Th: "total original_metrics \<le> cur_height"
    and len: "int (length img) = width * cur_height"
  shows "\<exists>img'.
      ExpandBuffer fill width cur_height original_metrics new_metrics img = Some (True, img')
    \<and> expand_and_update fill width cur_height original_metrics new_metrics img
        = Some (RoundUpToPowerOf2 (total new_metrics), img')
    \<and> int (length img') = width * RoundUpToPowerOf2 (total new_metrics)
    \<and> (\<forall>x y. 0 \<le> x \<and> x < width \<and> 0 \<le> y \<and> y < total original_metrics \<longrightarrow>
           img' ! nat ((y + (internal_leading new_metrics
                              - internal_leading original_metrics)) * width + x)
           = img ! nat (y * width + x))
    \<and> (\<forall>x y. 0 \<le> x \<and> x < width \<and> 0 \<le> y
             \<and> y < internal_leading new_metrics - internal_leading original_metrics \<longrightarrow>
           img' ! nat (y * width + x) = 0)
    \<and> (\<forall>x y. 0 \<le> x \<and> x < width
             \<and> internal_leading new_metrics - internal_leading original_metrics
                 + total original_metrics \<le> y
             \<and> y < RoundUpToPowerOf2 (total new_metrics) \<longrightarrow>
           img' ! nat (y * width + x) = 0)"
proof -
  define d where "d = internal_leading new_metrics - internal_leading original_metrics"
  define H where "H = RoundUpToPowerOf2 (total new_metrics)"
  define t where "t = total original_metrics"
  define a where "a = nat (width * d)"
  define b where "b = nat (width * t)"
  define c where "c = nat (width * (H - (t + d)))"
  define R where "R = replicate a (0::uint8) @ take b img @ replicate c 0"
  have d0: "0 \<le> d" using il by (simp add: d_def)
  have "t + d \<le> total new_metrics"
    using el asc desc by (simp add: t_def d_def total_def)
  also have "\<dots> \<le> H" unfolding H_def by (rule RoundUpToPowerOf2_ge)
  finally have fits: "t + d \<le> H" .
  have "width * t \<le> width * cur_height" using w Th unfolding t_def by (rule mult_left_mono [rotated])
  then have src: "width * t \<le> int (length img)" using len by simp
  have ea: "int a = width * d" using w d0 by (simp add: a_def)
  have eb: "int b = width * t" using w T by (simp add: b_def t_def)
  have ec: "int c = width * (H - (t + d))" using w fits by (simp add: c_def)
  have bl: "b \<le> length img" using src eb by simp
  have E: "ExpandBuffer fill width cur_height original_metrics new_metrics img = Some (True, R)"
    unfolding R_def a_def b_def c_def d_def H_def t_def
    using neq realloc w il fits T src unfolding t_def d_def H_def
    by (rule ExpandBuffer_realloc_eq)
  have U: "expand_and_update fill width cur_height original_metrics new_metrics img
           = Some (H, R)"
    using neq E by (simp add: expand_and_update_def H_def)
  have L: "int (length R) = width * H"
  proof -
    have "int (length R) = int a + int b + int c" using bl by (simp add: R_def)
    also have "\<dots> = width * H" unfolding ea eb ec by (simp add: algebra_simps)
    finally show ?thesis .
  qed
  have copy: "R ! nat ((y + d) * width + x) = img ! nat (y * width + x)"
    if "0 \<le> x" "x < width" "0 \<le> y" "y < t" for x y
  proof -
    have lo: "0 * width \<le> y * width + x" and hi: "y * width + x < t * width"
      using that by (rule row_col_bounds)+
    have "y * width + x < int b" using hi unfolding eb by (simp add: mult.commute)
    then have j: "nat (y * width + x) < b" using lo by linarith
    have "(y + d) * width + x = int a + (y * width + x)" unfolding ea by (simp add: algebra_simps)
    then have "nat ((y + d) * width + x) = a + nat (y * width + x)" using lo by simp
    then show ?thesis using plane_nth(2) [OF bl j, of a c] by (simp add: R_def)
  qed
  have top: "R ! nat (y * width + x) = 0"
    if "0 \<le> x" "x < width" "0 \<le> y" "y < d" for x y
  proof -
    have lo: "0 * width \<le> y * width + x" and hi: "y * width + x < d * width"
      using that by (rule row_col_bounds)+
    have "y * width + x < int a" using hi unfolding ea by (simp add: mult.commute)
    then have "nat (y * width + x) < a" using lo by linarith
    then show ?thesis using plane_nth(1) [OF bl, of _ a c] by (simp add: R_def)
  qed
  have bottom: "R ! nat (y * width + x) = 0"
    if "0 \<le> x" "x < width" "d + t \<le> y" "y < H" for x y
  proof -
    have lo: "(d + t) * width \<le> y * width + x" and hi: "y * width + x < H * width"
      using that by (rule row_col_bounds)+
    have ab: "int a + int b = (d + t) * width" unfolding ea eb by (simp add: algebra_simps)
    have z: "0 \<le> y * width + x" using lo ab by linarith
    have 1: "a + b \<le> nat (y * width + x)" using ab lo z by linarith
    have "int a + int b + int c = H * width" unfolding ea eb ec by (simp add: algebra_simps)
    then have 2: "nat (y * width + x) < a + b + c" using hi z by linarith
    show ?thesis using plane_nth(3) [OF bl 1 2] by (simp add: R_def)
  qed
  show ?thesis
    using E U L copy top bottom unfolding d_def H_def t_def by blast
qed

theorem ExpandBuffer_reallocates_witness:
  "\<exists>img'.
      ExpandBuffer (\<lambda>i. 170) 2 4 test_metrics taller_metrics [1, 2, 3, 4, 5, 6, 7, 8]
        = Some (True, img')
    \<and> expand_and_update (\<lambda>i. 170) 2 4 test_metrics taller_metrics [1, 2, 3, 4, 5, 6, 7, 8]
        = Some (8, img')
    \<and> int (length img') = 16
    \<and> (\<forall>x y. 0 \<le> x \<and> x < 2 \<and> 0 \<le> y \<and> y < 4 \<longrightarrow>
           img' ! nat ((y + 1) * 2 + x) = [1, 2, 3, 4, 5, 6, 7, 8] ! nat (y * 2 + x))
    \<and> (\<forall>x y. 0 \<le> x \<and> x < 2 \<and> 0 \<le> y \<and> y < 1 \<longrightarrow> img' ! nat (y * 2 + x) = 0)
    \<and> (\<forall>x y. 0 \<le> x \<and> x < 2 \<and> 5 \<le> y \<and> y < 8 \<longrightarrow> img' ! nat (y * 2 + x) = 0)"
  using ExpandBuffer_reallocates
    [of test_metrics taller_metrics 4 2 "[1, 2, 3, 4, 5, 6, 7, 8]" "\<lambda>i. 170"]
  by (simp add: test_metrics_def taller_metrics_def total_def RoundUpToPowerOf2_5)

subsection \<open>\<open>ExpandBuffer\<close>: the same-height branch\<close>

text \<open>
  With the height unchanged and the internal leading grown by less than the old total,
  the \<open>memcpy\<close> of lines 252 and 253 has its destination inside its source: the call
  is undefined for every plane of positive width.
\<close>

lemma memcpy_within_overlap: "0 < n \<Longrightarrow> off < n \<Longrightarrow> memcpy_within buf off n = None"
  by (simp add: memcpy_within_def)

lemma ExpandBuffer_same_height_overlap:
  assumes "total original_metrics \<noteq> total new_metrics"
    and "RoundUpToPowerOf2 (total new_metrics) = cur_height"
    and "0 < width"
    and "internal_leading original_metrics < internal_leading new_metrics"
    and "internal_leading new_metrics - internal_leading original_metrics
           < total original_metrics"
  shows "ExpandBuffer fill width cur_height original_metrics new_metrics img = None"
proof -
  define d where "d = internal_leading new_metrics - internal_leading original_metrics"
  have d: "0 < d" "d < total original_metrics" using assms(4,5) by (simp_all add: d_def)
  have "width * d < width * total original_metrics"
    using d(2) assms(3) by (simp add: mult_strict_left_mono)
  moreover have "0 < width * total original_metrics"
    using d assms(3) by simp
  ultimately have "memcpy_within img (width * d) (width * total original_metrics) = None"
    by (intro memcpy_within_overlap)
  then show ?thesis
    using assms(1,2) d(1) unfolding ExpandBuffer_def Let_def d_def by simp
qed

text \<open>
  Claim C2 (not met by the code). The claim wants the same-height branch to shift the
  first \<open>width\<close> by old-total bytes down by \<open>width * d\<close> with memmove semantics. The
  source calls \<open>memcpy\<close> on the overlapping regions. On a plane of width 2 and height
  8 holding four rows, with the internal leading growing from 0 to 1, the call is
  undefined, where \<open>memmove\<close> would have moved the four rows down by one.
\<close>

theorem ExpandBuffer_same_height_memcpy_overlaps:
  "ExpandBuffer (\<lambda>i. 170) 2 8 test_metrics taller_metrics
     [1, 2, 3, 4, 5, 6, 7, 8, 0, 0, 0, 0, 0, 0, 0, 0] = None
   \<and> memcpy_within [1, 2, 3, 4, 5, 6, 7, 8, 0, 0, 0, 0, 0, 0, 0, 0] 2 8 = None
   \<and> memmove_within [1, 2, 3, 4, 5, 6, 7, 8, 0, 0, 0, 0, 0, 0, 0, 0] 2 8
       = Some [1, 2, 1, 2, 3, 4, 5, 6, 7, 8, 0, 0, 0, 0, 0, 0]"
  by (simp add: ExpandBuffer_def test_metrics_def taller_metrics_def total_def
      RoundUpToPowerOf2_5 memcpy_within_def memmove_within_def)

subsection \<open>The loop of \<open>GetTexture\<close>: what a round keeps\<close>

lemma refine_metrics_fields:
  "internal_leading (refine_metrics m g) = max (internal_leading m) (bitmap_top g - ascender m)"
  "external_leading (refine_metrics m g)
     = min (external_leading m) (bitmap_top g - bitmap_rows g - descender m)"
  "ascender (refine_metrics m g) = ascender m"
  "descender (refine_metrics m g) = descender m"
  "base_line (refine_metrics m g)
     = internal_leading (refine_metrics m g) + ascender (refine_metrics m g)"
  by (simp_all add: refine_metrics_def Let_def)

lemma ExpandBuffer_same_height:
  assumes "ExpandBuffer fill w h m m' img = Some (False, img')" "total m \<noteq> total m'"
  shows "h = RoundUpToPowerOf2 (total m')"
  using assms unfolding ExpandBuffer_def Let_def
  by (simp split: if_splits option.splits)

lemma expand_and_update_height:
  assumes "expand_and_update fill w h m m' img = Some (h', img')"
  shows "h' = (if total m' \<noteq> total m then RoundUpToPowerOf2 (total m') else h)"
proof (cases "total m' = total m")
  case True
  with assms show ?thesis by (simp add: expand_and_update_def)
next
  case False
  then obtain b where E: "ExpandBuffer fill w h m m' img = Some (b, img')"
    and h': "h' = (if b then RoundUpToPowerOf2 (total m') else h)"
    using assms by (auto simp: expand_and_update_def split: option.splits)
  show ?thesis
  proof (cases b)
    case True
    with h' False show ?thesis by simp
  next
    case b: False
    with E False have "h = RoundUpToPowerOf2 (total m')"
      using ExpandBuffer_same_height [of fill w h m m' img img'] by simp
    with h' b False show ?thesis by simp
  qed
qed

lemma refine_and_expand_result:
  assumes "refine_and_expand fill w a g = Some a1"
  shows "initial_metrics a1 = (if exceeds_metrics (initial_metrics a) g
                               then refine_metrics (initial_metrics a) g
                               else initial_metrics a)"
    and "atlasX a1 = atlasX a" and "atlasY a1 = atlasY a"
    and "height a1 = (if total (initial_metrics a1) \<noteq> total (initial_metrics a)
                      then RoundUpToPowerOf2 (total (initial_metrics a1)) else height a)"
  using assms
  by (auto simp: refine_and_expand_def Let_def split: if_splits option.splits prod.splits
           dest: expand_and_update_height)

lemma line_wrap_keeps:
  "initial_metrics (line_wrap w ys a g) = initial_metrics a"
  "height (line_wrap w ys a g) = height a"
  "image_buf (line_wrap w ys a g) = image_buf a"
  by (simp_all add: line_wrap_def)

lemma GetTexture_glyph_result:
  assumes "GetTexture_glyph eng face w ys a gi = Some (Inr a')"
  shows "\<exists>g a1. FT_Load_Glyph eng face (codepoint gi) = Some g
           \<and> refine_and_expand (garbage eng) w a g = Some a1
           \<and> initial_metrics a' = initial_metrics a1 \<and> height a' = height a1"
  using assms
  by (auto simp: GetTexture_glyph_def Let_def line_wrap_keeps
           split: option.splits if_splits)

lemma GetTexture_glyph_metrics:
  assumes "GetTexture_glyph eng face w ys a gi = Some (Inr a')"
  shows "internal_leading (initial_metrics a) \<le> internal_leading (initial_metrics a')"
    and "external_leading (initial_metrics a') \<le> external_leading (initial_metrics a)"
    and "ascender (initial_metrics a') = ascender (initial_metrics a)"
    and "descender (initial_metrics a') = descender (initial_metrics a)"
    and "base_line (initial_metrics a)
           = internal_leading (initial_metrics a) + ascender (initial_metrics a)
         \<Longrightarrow> base_line (initial_metrics a')
           = internal_leading (initial_metrics a') + ascender (initial_metrics a')"
proof -
  obtain g a1 where r: "refine_and_expand (garbage eng) w a g = Some a1"
    and m: "initial_metrics a' = initial_metrics a1"
    using GetTexture_glyph_result [OF assms] by blast
  note eq = refine_and_expand_result(1) [OF r]
  show "internal_leading (initial_metrics a) \<le> internal_leading (initial_metrics a')"
    unfolding m eq by (simp add: refine_metrics_fields)
  show "external_leading (initial_metrics a') \<le> external_leading (initial_metrics a)"
    unfolding m eq by (simp add: refine_metrics_fields)
  show "ascender (initial_metrics a') = ascender (initial_metrics a)"
    unfolding m eq by (simp add: refine_metrics_fields)
  show "descender (initial_metrics a') = descender (initial_metrics a)"
    unfolding m eq by (simp add: refine_metrics_fields)
  show "base_line (initial_metrics a')
           = internal_leading (initial_metrics a') + ascender (initial_metrics a')"
    if "base_line (initial_metrics a)
           = internal_leading (initial_metrics a) + ascender (initial_metrics a)"
    unfolding m eq using that by (simp add: refine_metrics_fields)
qed

lemma GetTexture_glyph_height:
  assumes "GetTexture_glyph eng face w ys a gi = Some (Inr a')"
    and "total (initial_metrics a) \<le> height a" and "\<exists>k. height a = 2 ^ k"
  shows "total (initial_metrics a') \<le> height a'" and "\<exists>k. height a' = 2 ^ k"
proof -
  obtain g a1 where r: "refine_and_expand (garbage eng) w a g = Some a1"
    and m: "initial_metrics a' = initial_metrics a1" and h: "height a' = height a1"
    using GetTexture_glyph_result [OF assms(1)] by blast
  note hh = refine_and_expand_result(4) [OF r]
  show "total (initial_metrics a') \<le> height a'"
    unfolding m h using hh assms(2) RoundUpToPowerOf2_ge [of "total (initial_metrics a1)"]
    by (simp split: if_splits)
  show "\<exists>k. height a' = 2 ^ k"
    unfolding h using hh assms(3) RoundUpToPowerOf2_pow [of "total (initial_metrics a1)"]
    by (simp split: if_splits)
qed

lemma GetTexture_loop_metrics:
  assumes "GetTexture_loop eng face w ys a gis = Some (Inr a')"
  shows "internal_leading (initial_metrics a) \<le> internal_leading (initial_metrics a')
       \<and> external_leading (initial_metrics a') \<le> external_leading (initial_metrics a)
       \<and> ascender (initial_metrics a') = ascender (initial_metrics a)
       \<and> descender (initial_metrics a') = descender (initial_metrics a)
       \<and> (base_line (initial_metrics a)
             = internal_leading (initial_metrics a) + ascender (initial_metrics a)
           \<longrightarrow> base_line (initial_metrics a')
             = internal_leading (initial_metrics a') + ascender (initial_metrics a'))"
  using assms
proof (induction gis arbitrary: a)
  case Nil
  then show ?case by simp
next
  case (Cons gi gis)
  then obtain b where step: "GetTexture_glyph eng face w ys a gi = Some (Inr b)"
    and rest: "GetTexture_loop eng face w ys b gis = Some (Inr a')"
    by (auto split: option.splits sum.splits)
  from Cons.IH [OF rest] GetTexture_glyph_metrics [OF step]
  show ?case by auto
qed

lemma GetTexture_loop_height:
  assumes "GetTexture_loop eng face w ys a gis = Some (Inr a')"
    and "total (initial_metrics a) \<le> height a" and "\<exists>k. height a = 2 ^ k"
  shows "total (initial_metrics a') \<le> height a' \<and> (\<exists>k. height a' = 2 ^ k)"
  using assms
proof (induction gis arbitrary: a)
  case Nil
  then show ?case by simp
next
  case (Cons gi gis)
  then obtain b where step: "GetTexture_glyph eng face w ys a gi = Some (Inr b)"
    and rest: "GetTexture_loop eng face w ys b gis = Some (Inr a')"
    by (auto split: option.splits sum.splits)
  from GetTexture_glyph_height [OF step Cons.prems(2,3)] Cons.IH [OF rest]
  show ?case by blast
qed

subsection \<open>The plane during the loop, and the reallocation inside \<open>GetTexture\<close>\<close>

lemma memcpy_length: "memcpy dst off src n = Some r \<Longrightarrow> length r = length dst"
  by (auto simp: memcpy_def split: if_splits)

lemma memcpy_within_length: "memcpy_within buf off n = Some r \<Longrightarrow> length r = length buf"
  by (auto simp: memcpy_within_def split: if_splits)

lemma memset_zero_length: "memset_zero buf off n = Some r \<Longrightarrow> length r = length buf"
  by (auto simp: memset_zero_def split: if_splits)

lemma new_uint8_length: "new_uint8 fill n = Some r \<Longrightarrow> int (length r) = n"
  by (auto simp: new_uint8_def split: if_splits)

lemma ExpandBuffer_length:
  assumes "ExpandBuffer fill w h m m' img = Some (b, img')" "int (length img) = w * h"
  shows "int (length img') = w * (if b then RoundUpToPowerOf2 (total m') else h)"
  using assms unfolding ExpandBuffer_def Let_def
  by (auto split: if_splits option.splits
      dest!: memcpy_length memcpy_within_length memset_zero_length new_uint8_length)

lemma expand_and_update_length:
  assumes "expand_and_update fill w h m m' img = Some (h', img')" "int (length img) = w * h"
  shows "int (length img') = w * h'"
  using assms ExpandBuffer_length [of fill w h m m' img _ img']
  by (auto simp: expand_and_update_def split: if_splits option.splits)

lemma blit_pixel_length: "blit_pixel w a g img p = Some img' \<Longrightarrow> length img' = length img"
  by (auto simp: blit_pixel_def Let_def split: if_splits prod.splits)

lemma blit_pixels_length: "blit_pixels w a g img ps = Some img' \<Longrightarrow> length img' = length img"
proof (induction ps arbitrary: img)
  case Nil
  then show ?case by simp
next
  case (Cons p ps)
  then obtain img1 where 1: "blit_pixel w a g img p = Some img1"
    and 2: "blit_pixels w a g img1 ps = Some img'"
    by (auto split: option.splits)
  from Cons.IH [OF 2] blit_pixel_length [OF 1] show ?case by simp
qed

lemma GetTexture_glyph_plane:
  assumes "GetTexture_glyph eng face w ys a gi = Some (Inr a')"
    and "int (length (image_buf a)) = w * height a"
  shows "int (length (image_buf a')) = w * height a'"
  using assms
  by (auto simp: GetTexture_glyph_def refine_and_expand_def Let_def line_wrap_def
      split: option.splits if_splits prod.splits
      dest!: blit_pixels_length expand_and_update_length)

lemma GetTexture_loop_plane:
  assumes "GetTexture_loop eng face w ys a gis = Some (Inr a')"
    and "int (length (image_buf a)) = w * height a"
  shows "int (length (image_buf a')) = w * height a'"
  using assms
proof (induction gis arbitrary: a)
  case Nil
  then show ?case by simp
next
  case (Cons gi gis)
  then obtain b where step: "GetTexture_glyph eng face w ys a gi = Some (Inr b)"
    and rest: "GetTexture_loop eng face w ys b gis = Some (Inr a')"
    by (auto split: option.splits sum.splits)
  from Cons.IH [OF rest GetTexture_glyph_plane [OF step Cons.prems(2)]]
  show ?case .
qed

lemma GetTexture_loop_total_grows:
  assumes "GetTexture_loop eng face w ys a gis = Some (Inr a')"
  shows "total (initial_metrics a) \<le> total (initial_metrics a')"
  using GetTexture_loop_metrics [OF assms] by (simp add: total_def)

text \<open>
  In any state the loop reaches from the start of \<open>GetTexture\<close> with a pixel size
  that is not negative, a glyph that grows the metrics into the reallocation branch
  meets the hypotheses under which the reallocation is defined.
\<close>

lemma reallocation_defined_in_GetTexture:
  assumes loop: "GetTexture_loop eng face w ys
        \<lparr>height = RoundUpToPowerOf2 ys,
         initial_metrics = \<lparr>base_line = b, internal_leading = 0, ascender = b,
                             descender = b - ys, external_leading = 0\<rparr>,
         image_buf = replicate (nat (w * RoundUpToPowerOf2 ys)) 0,
         atlasX = kGlyphPadding, atlasY = kGlyphPadding\<rparr> gis = Some (Inr a)"
    and ys: "0 \<le> ys" and w: "0 \<le> w"
    and grow: "total (refine_metrics (initial_metrics a) g) \<noteq> total (initial_metrics a)"
    and realloc: "RoundUpToPowerOf2 (total (refine_metrics (initial_metrics a) g)) \<noteq> height a"
  shows "\<exists>img'. ExpandBuffer fill w (height a) (initial_metrics a)
                   (refine_metrics (initial_metrics a) g) (image_buf a) = Some (True, img')"
proof -
  let ?a0 = "\<lparr>height = RoundUpToPowerOf2 ys,
         initial_metrics = \<lparr>base_line = b, internal_leading = 0, ascender = b,
                             descender = b - ys, external_leading = 0\<rparr>,
         image_buf = replicate (nat (w * RoundUpToPowerOf2 ys)) 0,
         atlasX = kGlyphPadding, atlasY = kGlyphPadding\<rparr>"
  let ?m = "initial_metrics a" and ?m' = "refine_metrics (initial_metrics a) g"
  have "0 \<le> w * RoundUpToPowerOf2 ys"
    using w RoundUpToPowerOf2_pos [of ys] by simp
  then have len0: "int (length (image_buf ?a0)) = w * height ?a0" by simp
  have len: "int (length (image_buf a)) = w * height a"
    using loop len0 by (rule GetTexture_loop_plane)
  have "total (initial_metrics ?a0) \<le> total ?m"
    using loop by (rule GetTexture_loop_total_grows)
  then have T: "0 \<le> total ?m" using ys by (simp add: total_def)
  have "total (initial_metrics ?a0) \<le> height ?a0 \<and> (\<exists>k. height ?a0 = 2 ^ k)"
    using RoundUpToPowerOf2_ge [of ys] RoundUpToPowerOf2_pow [of ys] by (simp add: total_def)
  then have Th: "total ?m \<le> height a"
    using GetTexture_loop_height [OF loop] by blast
  have fits: "total ?m + (internal_leading ?m' - internal_leading ?m)
                \<le> RoundUpToPowerOf2 (total ?m')"
  proof -
    have "total ?m + (internal_leading ?m' - internal_leading ?m) \<le> total ?m'"
      by (simp add: total_def refine_metrics_fields)
    also have "\<dots> \<le> RoundUpToPowerOf2 (total ?m')" by (rule RoundUpToPowerOf2_ge)
    finally show ?thesis .
  qed
  have "w * total ?m \<le> w * height a" using Th w by (rule mult_left_mono)
  then have src: "w * total ?m \<le> int (length (image_buf a))" using len by simp
  have "ExpandBuffer fill w (height a) ?m ?m' (image_buf a) = Some (True,
           replicate (nat (w * (internal_leading ?m' - internal_leading ?m))) 0
           @ take (nat (w * total ?m)) (image_buf a)
           @ replicate (nat (w * (RoundUpToPowerOf2 (total ?m')
                 - (total ?m + (internal_leading ?m' - internal_leading ?m))))) 0)"
    using grow [symmetric] realloc w _ fits T src
    by (rule ExpandBuffer_realloc_eq) (simp add: refine_metrics_fields)
  then show ?thesis by blast
qed

subsection \<open>\<open>GetTexture\<close>: the two ways through the cache\<close>

lemma GetTexture_hit:
  "map_textures fm text = Some t \<Longrightarrow> GetTexture eng fm text ysize = Some (Inr t, fm)"
  by (simp add: GetTexture_def)

lemma GetTexture_miss_cases:
  assumes "map_textures fm text = None" "GetTexture eng fm text ysize = Some (r, fm')"
  obtains (fail) f face0 where "r = Inl f" "the_face fm = Some face0"
      "fm' = fm\<lparr>the_face := Some (face0\<lparr>pixel_size := ysize\<rparr>),
                harfbuzz_buf := hb_buffer_add_utf8 (harfbuzz_buf fm) text\<rparr>"
  | (ok) face0 a img0 b where "r = Inr (length (textures fm))" "the_face fm = Some face0"
      "b = c_div (ysize * face_ascender face0) (units_per_EM face0)"
      "GetTexture_loop eng (face0\<lparr>pixel_size := ysize\<rparr>)
         (RoundUpToPowerOf2 (string_width_of (hb_shape eng (face0\<lparr>pixel_size := ysize\<rparr>)
            (hb_buffer_add_utf8 (harfbuzz_buf fm) text))))
         ysize
         \<lparr>height = RoundUpToPowerOf2 ysize,
          initial_metrics = \<lparr>base_line = b, internal_leading = 0, ascender = b,
                              descender = b - ysize, external_leading = 0\<rparr>,
          image_buf = img0, atlasX = kGlyphPadding, atlasY = kGlyphPadding\<rparr>
         (hb_shape eng (face0\<lparr>pixel_size := ysize\<rparr>)
            (hb_buffer_add_utf8 (harfbuzz_buf fm) text))
       = Some (Inr a)"
      "fm' = fm\<lparr>the_face := Some (face0\<lparr>pixel_size := ysize\<rparr>),
                harfbuzz_buf := hb_buffer_clear_contents
                                  (hb_buffer_add_utf8 (harfbuzz_buf fm) text),
                textures := textures fm @
                  [\<lparr>tex_image = image_buf a,
                    tex_size = (RoundUpToPowerOf2 (string_width_of
                       (hb_shape eng (face0\<lparr>pixel_size := ysize\<rparr>)
                          (hb_buffer_add_utf8 (harfbuzz_buf fm) text))), height a),
                    uv_right = (string_width_of
                       (hb_shape eng (face0\<lparr>pixel_size := ysize\<rparr>)
                          (hb_buffer_add_utf8 (harfbuzz_buf fm) text)),
                       RoundUpToPowerOf2 (string_width_of
                       (hb_shape eng (face0\<lparr>pixel_size := ysize\<rparr>)
                          (hb_buffer_add_utf8 (harfbuzz_buf fm) text)))),
                    uv_bottom = (total (initial_metrics a), height a),
                    metrics = initial_metrics a\<rparr>],
                map_textures := (map_textures fm)(text \<mapsto> length (textures fm))\<rparr>"
  using assms unfolding GetTexture_def Let_def
  by (auto split: option.splits if_splits sum.splits)

lemma GetTexture_success_cached:
  assumes "GetTexture eng fm text ysize = Some (Inr t, fm')"
  shows "map_textures fm' text = Some t"
proof (cases "map_textures fm text")
  case None
  from None assms show ?thesis
    by (cases rule: GetTexture_miss_cases) simp_all
next
  case (Some t0)
  with assms show ?thesis by (simp add: GetTexture_def)
qed

subsection \<open>Runs on the test face\<close>

lemma RoundUpToPowerOf2_3: "RoundUpToPowerOf2 3 = 4"
  by code_simp

lemma RoundUpToPowerOf2_4: "RoundUpToPowerOf2 4 = 4"
  by code_simp

lemma RoundUpToPowerOf2_6: "RoundUpToPowerOf2 6 = 8"
  by code_simp

lemma loop_A:
  "GetTexture_loop test_engines (test_face\<lparr>pixel_size := 4\<rparr>) 4 4 (test_atlas 4) [shaped 65]
   = Some (Inr ((test_atlas 4)\<lparr>image_buf := [0, 0, 0, 0, 1, 2, 0, 0, 3, 4, 0, 0, 0, 0, 0, 0],
                            atlasX := 3\<rparr>))"
  by code_simp

lemma loop_g:
  "GetTexture_loop test_engines (test_face\<lparr>pixel_size := 4\<rparr>) 4 4 (test_atlas 4) [shaped 103]
   = Some (Inr atlas_after_g)"
  by code_simp

lemma loop_no_glyph:
  "GetTexture_loop test_engines (test_face\<lparr>pixel_size := 4\<rparr>) 4 4 (test_atlas 4) [shaped 63]
   = Some (Inl GlyphLoadFailure)"
  by code_simp

lemma loop_no_glyph_first:
  "GetTexture_loop test_engines (test_face\<lparr>pixel_size := 4\<rparr>) 8 4 (test_atlas 8)
     [shaped 63, shaped c]
   = Some (Inl GlyphLoadFailure)"
  by (simp add: GetTexture_glyph_def test_engines_def test_glyph_def shaped_def)

lemma blit_j:
  "blit_pixel 4 (test_atlas 4) glyph_j (image_buf (test_atlas 4)) (0, 0) = None"
  "line_wrap 4 4 (test_atlas 4) glyph_j = test_atlas 4"
  "\<not> exceeds_texture (test_atlas 4) glyph_j"
  by code_simp+

lemma loop_j:
  "GetTexture_loop test_engines (test_face\<lparr>pixel_size := 4\<rparr>) 4 4 (test_atlas 4) [shaped 106]
   = None"
  by code_simp

lemma test_shape:
  "hb_shape test_engines f ''A'' = [shaped 65]"
  "hb_shape test_engines f ''?'' = [shaped 63]"
  "hb_shape test_engines f ''j'' = [shaped 106]"
  "hb_shape test_engines f ''??'' = [shaped 63, shaped 63]"
  "hb_shape test_engines f ''?A'' = [shaped 63, shaped 65]"
  by (simp_all add: test_engines_def)

lemma string_width_one: "string_width_of [shaped c] = 3"
  by (simp add: string_width_of_def shaped_def u32_def kFreeTypeUnit_def)

lemma string_width_two: "string_width_of [shaped c, shaped c'] = 6"
  by (simp add: string_width_of_def shaped_def u32_def kFreeTypeUnit_def)

text \<open>
  \<open>GetTexture\<close> at pixel size 4 on a face with the header of the test face, when the
  string is not cached: all but the loop, computed.
\<close>

lemma GetTexture_at_size_4:
  assumes "map_textures fm text = None" "the_face fm = Some face0"
    and "face_ascender face0 = 3" "units_per_EM face0 = 4"
  shows "GetTexture eng fm text 4 =
     (let face = face0\<lparr>pixel_size := 4\<rparr>;
          buf = harfbuzz_buf fm @ text;
          glyphs = hb_shape eng face buf;
          width = RoundUpToPowerOf2 (string_width_of glyphs)
      in case GetTexture_loop eng face width 4 (test_atlas width) glyphs of
           None \<Rightarrow> None
         | Some (Inl f) \<Rightarrow> Some (Inl f, fm\<lparr>the_face := Some face, harfbuzz_buf := buf\<rparr>)
         | Some (Inr a) \<Rightarrow> Some (Inr (length (textures fm)),
             fm\<lparr>the_face := Some face, harfbuzz_buf := [],
                textures := textures fm @
                  [\<lparr>tex_image = image_buf a, tex_size = (width, height a),
                    uv_right = (string_width_of glyphs, width),
                    uv_bottom = (total (initial_metrics a), height a),
                    metrics = initial_metrics a\<rparr>],
                map_textures := (map_textures fm)(text \<mapsto> length (textures fm))\<rparr>))"
  using assms
    RoundUpToPowerOf2_pos [of "string_width_of
      (hb_shape eng (face0\<lparr>pixel_size := 4\<rparr>) (harfbuzz_buf fm @ text))"]
  by (simp add: GetTexture_def test_metrics_def test_atlas_def hb_buffer_add_utf8_def
      hb_buffer_clear_contents_def c_div_def kGlyphPadding_def RoundUpToPowerOf2_4
      new_uint8_def memset_zero_def Let_def
      split: option.splits sum.splits)

lemma test_manager_fields:
  "map_textures test_manager text = None"
  "the_face test_manager = Some test_face"
  "map_textures failed_manager text = None"
  "the_face failed_manager = Some (test_face\<lparr>pixel_size := 4\<rparr>)"
  "face_ascender test_face = 3" "units_per_EM test_face = 4"
  "face_ascender (test_face\<lparr>pixel_size := 4\<rparr>) = 3"
  "units_per_EM (test_face\<lparr>pixel_size := 4\<rparr>) = 4"
  "harfbuzz_buf test_manager = []" "harfbuzz_buf failed_manager = ''?''"
  "textures test_manager = []"
  by (simp_all add: test_manager_def failed_manager_def new_FontManager_def test_face_def)

lemma run_A: "GetTexture test_engines test_manager ''A'' 4 = Some (Inr 0, manager_with_A)"
  by (simp add: GetTexture_at_size_4 [OF test_manager_fields(1,2,5,6)] test_manager_fields(9,11)
        test_shape string_width_one RoundUpToPowerOf2_3 loop_A
        del: GetTexture_loop.simps)
     (simp add: manager_with_A_def texture_A_def test_manager_def new_FontManager_def
        test_atlas_def total_def test_metrics_def)

lemma run_no_glyph:
  "GetTexture test_engines test_manager ''?'' 4 = Some (Inl GlyphLoadFailure, failed_manager)"
  by (simp add: GetTexture_at_size_4 [OF test_manager_fields(1,2,5,6)] test_manager_fields(9,11)
        test_shape string_width_one RoundUpToPowerOf2_3 loop_no_glyph failed_manager_def
        del: GetTexture_loop.simps)

lemma run_j: "GetTexture test_engines test_manager ''j'' 4 = None"
  by (simp add: GetTexture_at_size_4 [OF test_manager_fields(1,2,5,6)] test_manager_fields(9,11)
        test_shape string_width_one RoundUpToPowerOf2_3 loop_j
        del: GetTexture_loop.simps)

lemma run_again_after_failure:
  "GetTexture test_engines failed_manager ''?'' 4
     = Some (Inl GlyphLoadFailure, failed_manager\<lparr>harfbuzz_buf := ''??''\<rparr>)"
  by (simp add: GetTexture_at_size_4 [OF test_manager_fields(3,4,7,8)] test_manager_fields(10)
        test_shape string_width_two RoundUpToPowerOf2_6 loop_no_glyph_first
        del: GetTexture_loop.simps)
     (simp add: failed_manager_def)

lemma run_A_after_failure:
  "GetTexture test_engines failed_manager ''A'' 4
     = Some (Inl GlyphLoadFailure, failed_manager\<lparr>harfbuzz_buf := ''?A''\<rparr>)"
  by (simp add: GetTexture_at_size_4 [OF test_manager_fields(3,4,7,8)] test_manager_fields(10)
        test_shape string_width_two RoundUpToPowerOf2_6 loop_no_glyph_first
        del: GetTexture_loop.simps)
     (simp add: failed_manager_def)

subsection \<open>The metrics during one call\<close>

text \<open>
  Claim C3. Each refinement takes the maximum with the old internal leading and the
  minimum with the old external leading, and sets the base line to internal leading
  plus ascender. So over any run of the loop the internal leading does not decrease
  and the external leading does not increase, and the texture of a call that went
  through the pipeline has \<open>base_line = internal_leading + ascender\<close>, a
  non-negative internal and a non-positive external leading.
\<close>

theorem metrics_monotone:
  "internal_leading m \<le> internal_leading (refine_metrics m g)
   \<and> external_leading (refine_metrics m g) \<le> external_leading m
   \<and> base_line (refine_metrics m g)
       = internal_leading (refine_metrics m g) + ascender (refine_metrics m g)
   \<and> (GetTexture_loop eng face w ys a gis = Some (Inr a') \<longrightarrow>
         internal_leading (initial_metrics a) \<le> internal_leading (initial_metrics a')
       \<and> external_leading (initial_metrics a') \<le> external_leading (initial_metrics a)
       \<and> (base_line (initial_metrics a)
             = internal_leading (initial_metrics a) + ascender (initial_metrics a)
           \<longrightarrow> base_line (initial_metrics a')
             = internal_leading (initial_metrics a') + ascender (initial_metrics a')))
   \<and> (map_textures fm text = None \<and> GetTexture eng fm text ysize = Some (Inr t, fm') \<longrightarrow>
         base_line (metrics (textures fm' ! t))
           = internal_leading (metrics (textures fm' ! t))
             + ascender (metrics (textures fm' ! t))
       \<and> 0 \<le> internal_leading (metrics (textures fm' ! t))
       \<and> external_leading (metrics (textures fm' ! t)) \<le> 0)"
proof (intro conjI impI)
  show "internal_leading m \<le> internal_leading (refine_metrics m g)"
    and "external_leading (refine_metrics m g) \<le> external_leading m"
    and "base_line (refine_metrics m g)
       = internal_leading (refine_metrics m g) + ascender (refine_metrics m g)"
    by (simp_all add: refine_metrics_fields)
next
  assume run: "GetTexture_loop eng face w ys a gis = Some (Inr a')"
  note loop = GetTexture_loop_metrics [OF run]
  from loop show "internal_leading (initial_metrics a)
                    \<le> internal_leading (initial_metrics a')" by simp
  from loop show "external_leading (initial_metrics a')
                    \<le> external_leading (initial_metrics a)" by simp
  assume "base_line (initial_metrics a)
            = internal_leading (initial_metrics a) + ascender (initial_metrics a)"
  with loop show "base_line (initial_metrics a')
            = internal_leading (initial_metrics a') + ascender (initial_metrics a')" by simp
next
  assume "map_textures fm text = None \<and> GetTexture eng fm text ysize = Some (Inr t, fm')"
  then have miss: "map_textures fm text = None"
    and run: "GetTexture eng fm text ysize = Some (Inr t, fm')" by simp_all
  from miss run
  have "base_line (metrics (textures fm' ! t))
           = internal_leading (metrics (textures fm' ! t))
             + ascender (metrics (textures fm' ! t))
       \<and> 0 \<le> internal_leading (metrics (textures fm' ! t))
       \<and> external_leading (metrics (textures fm' ! t)) \<le> 0"
  proof (cases rule: GetTexture_miss_cases)
    case (ok face0 a img0 b)
    from GetTexture_loop_metrics [OF ok(4)]
    have "base_line (initial_metrics a)
            = internal_leading (initial_metrics a) + ascender (initial_metrics a)
          \<and> 0 \<le> internal_leading (initial_metrics a)
          \<and> external_leading (initial_metrics a) \<le> 0" by simp
    with ok(1,5) show ?thesis by simp
  qed simp
  then show "base_line (metrics (textures fm' ! t))
           = internal_leading (metrics (textures fm' ! t))
             + ascender (metrics (textures fm' ! t))"
    and "0 \<le> internal_leading (metrics (textures fm' ! t))"
    and "external_leading (metrics (textures fm' ! t)) \<le> 0" by simp_all
qed

theorem metrics_monotone_witness:
  "GetTexture_loop test_engines (test_face\<lparr>pixel_size := 4\<rparr>) 4 4 (test_atlas 4) [shaped 103]
     = Some (Inr atlas_after_g)
   \<and> internal_leading (initial_metrics (test_atlas 4))
       \<le> internal_leading (initial_metrics atlas_after_g)
   \<and> external_leading (initial_metrics atlas_after_g)
       \<le> external_leading (initial_metrics (test_atlas 4))
   \<and> external_leading (initial_metrics atlas_after_g) = - 2
   \<and> base_line (initial_metrics atlas_after_g)
       = internal_leading (initial_metrics atlas_after_g)
         + ascender (initial_metrics atlas_after_g)
   \<and> map_textures test_manager ''A'' = None
   \<and> GetTexture test_engines test_manager ''A'' 4 = Some (Inr 0, manager_with_A)
   \<and> base_line (metrics (textures manager_with_A ! 0))
       = internal_leading (metrics (textures manager_with_A ! 0))
         + ascender (metrics (textures manager_with_A ! 0))"
proof -
  have start: "base_line (initial_metrics (test_atlas 4))
      = internal_leading (initial_metrics (test_atlas 4))
        + ascender (initial_metrics (test_atlas 4))"
    by (simp add: test_atlas_def test_metrics_def)
  have el: "external_leading (initial_metrics atlas_after_g) = - 2"
    by (simp add: atlas_after_g_def)
  show ?thesis
    using metrics_monotone [of test_metrics glyph_g test_engines
        "test_face\<lparr>pixel_size := 4\<rparr>" 4 4 "test_atlas 4" "[shaped 103]" atlas_after_g
        test_manager "''A''" 4 0 manager_with_A]
      loop_g run_A test_manager_fields(1) [of "''A''"] start el
    by blast
qed

subsection \<open>The size of the texture\<close>

text \<open>
  Claim C4. After a successful \<open>GetTexture\<close> the returned pointer is a texture of the
  manager whose width and height are powers of two, whose string width is at most its
  width and whose metrics' total is at most its height; this holds for the texture a
  cache hit returns as well, since every cached texture was made so. The powers of two
  come from the model of \<open>RoundUpToPowerOf2\<close>.
\<close>

theorem dimension_parity_kept:
  assumes inv: "cache_ok fm"
    and run: "GetTexture eng fm text ysize = Some (Inr t, fm')"
  shows "t < length (textures fm') \<and> dimension_parity (textures fm' ! t) \<and> cache_ok fm'"
proof (cases "map_textures fm text")
  case (Some t0)
  with run have "t = t0" "fm' = fm" by (simp_all add: GetTexture_def)
  with Some inv show ?thesis by (simp add: cache_ok_def)
next
  case None
  from None run show ?thesis
  proof (cases rule: GetTexture_miss_cases)
    case (ok face0 a img0 b)
    define sw where "sw = string_width_of (hb_shape eng (face0\<lparr>pixel_size := ysize\<rparr>)
                            (hb_buffer_add_utf8 (harfbuzz_buf fm) text))"
    define tex where "tex = \<lparr>tex_image = image_buf a,
                    tex_size = (RoundUpToPowerOf2 sw, height a),
                    uv_right = (sw, RoundUpToPowerOf2 sw),
                    uv_bottom = (total (initial_metrics a), height a),
                    metrics = initial_metrics a\<rparr>"
    have h: "total (initial_metrics a) \<le> height a \<and> (\<exists>k. height a = 2 ^ k)"
      using ok(4)
    proof (rule GetTexture_loop_height)
      show "total (initial_metrics \<lparr>height = RoundUpToPowerOf2 ysize,
          initial_metrics = \<lparr>base_line = b, internal_leading = 0, ascender = b,
                              descender = b - ysize, external_leading = 0\<rparr>,
          image_buf = img0, atlasX = kGlyphPadding, atlasY = kGlyphPadding\<rparr>)
         \<le> height \<lparr>height = RoundUpToPowerOf2 ysize,
          initial_metrics = \<lparr>base_line = b, internal_leading = 0, ascender = b,
                              descender = b - ysize, external_leading = 0\<rparr>,
          image_buf = img0, atlasX = kGlyphPadding, atlasY = kGlyphPadding\<rparr>"
        using RoundUpToPowerOf2_ge [of ysize] by (simp add: total_def)
      show "\<exists>k. height \<lparr>height = RoundUpToPowerOf2 ysize,
          initial_metrics = \<lparr>base_line = b, internal_leading = 0, ascender = b,
                              descender = b - ysize, external_leading = 0\<rparr>,
          image_buf = img0, atlasX = kGlyphPadding, atlasY = kGlyphPadding\<rparr> = 2 ^ k"
        using RoundUpToPowerOf2_pow [of ysize] by simp
    qed
    have tex_ok: "dimension_parity tex"
      using h RoundUpToPowerOf2_pow [of sw] RoundUpToPowerOf2_ge [of sw]
      by (simp add: dimension_parity_def tex_def)
    have fm': "textures fm' = textures fm @ [tex]"
      "map_textures fm' = (map_textures fm)(text \<mapsto> length (textures fm))"
      using ok(5) by (simp_all add: tex_def sw_def)
    have t: "t = length (textures fm)" using ok(1) by simp
    have "cache_ok fm'"
      unfolding cache_ok_def
    proof (intro allI impI)
      fix s u assume su: "map_textures fm' s = Some u"
      show "u < length (textures fm') \<and> dimension_parity (textures fm' ! u)"
      proof (cases "s = text")
        case True
        with su fm' have "u = length (textures fm)" by simp
        with fm' tex_ok show ?thesis by simp
      next
        case False
        with su fm' have "map_textures fm s = Some u" by simp
        with inv have "u < length (textures fm)" "dimension_parity (textures fm ! u)"
          by (auto simp: cache_ok_def)
        with fm' show ?thesis by (simp add: nth_append)
      qed
    qed
    with fm' t tex_ok show ?thesis by simp
  qed simp
qed

theorem dimension_parity_kept_witness:
  "cache_ok test_manager
   \<and> GetTexture test_engines test_manager ''A'' 4 = Some (Inr 0, manager_with_A)
   \<and> 0 < length (textures manager_with_A)
   \<and> dimension_parity (textures manager_with_A ! 0)
   \<and> cache_ok manager_with_A"
proof -
  have c: "cache_ok test_manager"
    by (simp add: cache_ok_def test_manager_fields)
  show ?thesis
    using dimension_parity_kept [OF c run_A] c run_A by blast
qed

subsection \<open>The blit\<close>

text \<open>
  Claim C5 (not met by the code). The claim wants every written pixel inside the
  plane, also for a glyph with a negative \<open>bitmap_left\<close> at the start of a row. The
  glyph \<open>j\<close> of the test face starts on the top row (\<open>bitmap_top\<close> equals the base
  line) one pixel left of the pen. Neither the line wrap nor the test of line 168
  fires, and the first pixel is written at index \<open>0 * 4 + 0 + 0 - 1\<close> in \<open>uint32_t\<close>,
  that is 4294967295, outside the 16 bytes of the plane.
\<close>

theorem blit_negative_bitmap_left_out_of_plane:
  "line_wrap 4 4 (test_atlas 4) glyph_j = test_atlas 4
   \<and> \<not> exceeds_texture (test_atlas 4) glyph_j
   \<and> blit_index 4 0 0 0 (- 1) 0 0 = 4294967295
   \<and> length (image_buf (test_atlas 4)) = 16
   \<and> blit_pixel 4 (test_atlas 4) glyph_j (image_buf (test_atlas 4)) (0, 0) = None
   \<and> GetTexture test_engines test_manager ''j'' 4 = None"
  using blit_j run_j by (simp add: blit_index_def u32_def test_atlas_def)

subsection \<open>The cache\<close>

text \<open>
  Claim C6, as stated, fails: when the first of two calls fails, nothing is cached and
  the second call goes through the pipeline again. On the test face the string \<open>?\<close>
  has no glyph: the first call returns no texture and leaves \<open>?\<close> in the shaping
  buffer, the second call adds the text again and shapes \<open>??\<close>.
\<close>

theorem second_call_after_failure_shapes_again:
  "GetTexture test_engines test_manager ''?'' 4 = Some (Inl GlyphLoadFailure, failed_manager)
   \<and> GetTexture test_engines failed_manager ''?'' 4
       = Some (Inl GlyphLoadFailure, failed_manager\<lparr>harfbuzz_buf := ''??''\<rparr>)
   \<and> harfbuzz_buf failed_manager = ''?''
   \<and> GetTexture test_engines failed_manager ''?'' 4
       \<noteq> Some (Inl GlyphLoadFailure, failed_manager)"
proof -
  have "harfbuzz_buf (failed_manager\<lparr>harfbuzz_buf := ''??''\<rparr>) \<noteq> harfbuzz_buf failed_manager"
    by (simp add: test_manager_fields)
  then have "failed_manager\<lparr>harfbuzz_buf := ''??''\<rparr> \<noteq> failed_manager"
    by (rule contrapos_nn) simp
  then show ?thesis
    using run_no_glyph run_again_after_failure by (simp add: test_manager_fields)
qed

text \<open>
  Claim C6, amended: when a call of \<open>GetTexture\<close> returns a texture, the next call with
  the same string and size returns the same pointer and leaves the manager as it is:
  it touches neither the face nor the shaping buffer and makes no texture.
\<close>

theorem cache_identity:
  assumes "GetTexture eng fm s y = Some (Inr t, fm')"
  shows "GetTexture eng fm' s y = Some (Inr t, fm')"
  using GetTexture_success_cached [OF assms] by (rule GetTexture_hit)

theorem cache_identity_witness:
  "GetTexture test_engines test_manager ''A'' 4 = Some (Inr 0, manager_with_A)
   \<and> GetTexture test_engines manager_with_A ''A'' 4 = Some (Inr 0, manager_with_A)"
  using cache_identity [OF run_A] run_A by blast

text \<open>
  Claim C10. The lookup is by the string alone. After a call with pixel size \<open>y1\<close>
  has returned a texture, a call with the same string and any pixel size \<open>y2\<close>
  returns the same pointer and leaves the manager as it is. If the first call made the
  texture, its metrics span \<open>y1\<close> rows from descender to ascender and the face still
  has the pixel size \<open>y1\<close>.
\<close>

theorem cache_ignores_pixel_size:
  assumes "GetTexture eng fm s y1 = Some (Inr t, fm')"
  shows "GetTexture eng fm' s y2 = Some (Inr t, fm')
       \<and> (map_textures fm s = None \<longrightarrow>
            t < length (textures fm')
          \<and> ascender (metrics (textures fm' ! t)) - descender (metrics (textures fm' ! t)) = y1
          \<and> (\<exists>face. the_face fm' = Some face \<and> pixel_size face = y1))"
proof
  show "GetTexture eng fm' s y2 = Some (Inr t, fm')"
    using GetTexture_success_cached [OF assms] by (rule GetTexture_hit)
  show "map_textures fm s = None \<longrightarrow>
            t < length (textures fm')
          \<and> ascender (metrics (textures fm' ! t)) - descender (metrics (textures fm' ! t)) = y1
          \<and> (\<exists>face. the_face fm' = Some face \<and> pixel_size face = y1)"
  proof
    assume miss: "map_textures fm s = None"
    from miss assms show "t < length (textures fm')
          \<and> ascender (metrics (textures fm' ! t)) - descender (metrics (textures fm' ! t)) = y1
          \<and> (\<exists>face. the_face fm' = Some face \<and> pixel_size face = y1)"
    proof (cases rule: GetTexture_miss_cases)
      case (ok face0 a img0 b)
      from GetTexture_loop_metrics [OF ok(4)]
      have "ascender (initial_metrics a) - descender (initial_metrics a) = y1" by simp
      with ok(1,5) show ?thesis by simp
    qed simp
  qed
qed

theorem cache_ignores_pixel_size_witness:
  "GetTexture test_engines test_manager ''A'' 4 = Some (Inr 0, manager_with_A)
   \<and> GetTexture test_engines manager_with_A ''A'' 7 = Some (Inr 0, manager_with_A)
   \<and> map_textures test_manager ''A'' = None
   \<and> ascender (metrics (textures manager_with_A ! 0))
       - descender (metrics (textures manager_with_A ! 0)) = 4"
  using cache_ignores_pixel_size [OF run_A, of 7] run_A test_manager_fields(1) [of "''A''"]
  by blast

text \<open>
  Claim C7. When \<open>GetTexture\<close> returns no texture, for either reason, the cache and
  the textures are as before the call, and the cache has no entry for the string, so
  that the next call with it takes the pipeline again.
\<close>

theorem failure_leaves_cache:
  assumes "GetTexture eng fm text ysize = Some (Inl f, fm')"
  shows "map_textures fm' = map_textures fm \<and> textures fm' = textures fm
       \<and> map_textures fm' text = None"
proof (cases "map_textures fm text")
  case None
  from None assms show ?thesis
    by (cases rule: GetTexture_miss_cases) (simp_all add: None)
next
  case (Some t0)
  with assms show ?thesis by (simp add: GetTexture_def)
qed

theorem failure_leaves_cache_witness:
  "GetTexture test_engines test_manager ''?'' 4 = Some (Inl GlyphLoadFailure, failed_manager)
   \<and> map_textures failed_manager = map_textures test_manager
   \<and> textures failed_manager = textures test_manager
   \<and> map_textures failed_manager ''?'' = None"
  using failure_leaves_cache [OF run_no_glyph] run_no_glyph by blast

subsection \<open>The shaping buffer\<close>

text \<open>
  Claim C9 (not met by the code). The claim wants the shaping buffer to hold exactly
  the current text when the shaper runs, also after a call that failed. The buffer is
  cleared on line 207 only, which the two \<open>return nullptr\<close> do not reach. After the
  failed call for \<open>?\<close> the buffer still holds \<open>?\<close>; the call for \<open>A\<close> shapes \<open>?A\<close>
  and fails on the stale glyph, although \<open>A\<close> on a fresh manager succeeds.
\<close>

theorem stale_shaping_buffer_after_failure:
  "GetTexture test_engines test_manager ''?'' 4 = Some (Inl GlyphLoadFailure, failed_manager)
   \<and> harfbuzz_buf failed_manager = ''?''
   \<and> hb_buffer_add_utf8 (harfbuzz_buf failed_manager) ''A'' = ''?A''
   \<and> GetTexture test_engines failed_manager ''A'' 4
       = Some (Inl GlyphLoadFailure, failed_manager\<lparr>harfbuzz_buf := ''?A''\<rparr>)
   \<and> GetTexture test_engines test_manager ''A'' 4 = Some (Inr 0, manager_with_A)"
  using run_no_glyph run_A_after_failure run_A
  by (simp add: failed_manager_def hb_buffer_add_utf8_def)

subsection \<open>\<open>Open\<close>\<close>

text \<open>
  The third failure of \<open>Open\<close>, the shaping font, releases the bytes and the face.
\<close>

lemma Open_shaper_failure_releases:
  assumes "\<not> face_initialized fm" "LoadFile eng font_name = Some bytes"
    and "FT_New_Memory_Face eng bytes = Some face" "\<not> hb_ft_font_create eng face"
  shows "Open eng fm font_name = Some (False, fm\<lparr>font_data := [], the_face := None\<rparr>)"
  using assms by (simp add: Open_def)

text \<open>The second failure, the face, returns with the bytes of the file still held.\<close>

lemma Open_face_failure_keeps_bytes:
  assumes "\<not> face_initialized fm" "LoadFile eng font_name = Some bytes"
    and "FT_New_Memory_Face eng bytes = None"
  shows "Open eng fm font_name = Some (False, fm\<lparr>font_data := bytes\<rparr>)"
  using assms by (simp add: Open_def)

text \<open>
  Claim C8 (not met by the code). The claim wants every failure of \<open>Open\<close> to retain
  nothing. With a font file that loads and that FreeType cannot parse, \<open>Open\<close> returns
  \<open>false\<close> and the manager keeps the four bytes of the file in \<open>font_data\<close>; the
  failure of the shaping font, lines 292 and 293, is the only one that clears them.
\<close>

theorem Open_face_failure_retains_font_data:
  "Open broken_font_engines new_FontManager ''font.ttf''
     = Some (False, new_FontManager\<lparr>font_data := [0, 1, 0, 0]\<rparr>)
   \<and> font_data (new_FontManager\<lparr>font_data := [0, 1, 0, 0]\<rparr>) \<noteq> []
   \<and> \<not> face_initialized (new_FontManager\<lparr>font_data := [0, 1, 0, 0]\<rparr>)"
  by (simp add: Open_def broken_font_engines_def test_engines_def new_FontManager_def)

end
